theory Spec2Isabelle
  imports Complex_Main "HOL-Library.AList" "HOL-Library.Multiset"
begin

section \<open>The balance calculator of squareup\<close>

text \<open>
  This theory embeds the class \<open>BalanceCalculator\<close> of
  \<open>src/utils/balanceCalculator.ts\<close> (given in \<open>context/plans/base-plan.md\<close>, lines
  683 to 800) with its four static methods \<open>calculateGroupBalances\<close>,
  \<open>simplifyDebts\<close>, \<open>splitEqually\<close> and \<open>validateCustomSplits\<close>.

  Numbers. A TypeScript \<open>number\<close> is an IEEE double. Amounts are modelled as exact
  rationals (\<^typ>\<open>rat\<close>): addition, subtraction, comparison and \<open>Math.min\<close> are the
  exact operations, and \<open>0.01\<close> is the rational 1/100. Rounding error of the
  binary representation is not part of the model.

  Failure. The class contains no \<open>throw\<close>, and none of the operations it applies to
  well-typed arguments raises in JavaScript (division by zero yields \<open>Infinity\<close>
  or \<open>NaN\<close>, \<open>Map.get\<close> of a missing key yields \<open>undefined\<close>, \<open>expenses[0]?.groupId\<close>
  of an empty array yields \<open>undefined\<close>). Every method is therefore a total function
  returning its value.
\<close>

subsection \<open>Data model: \<open>src/types/index.ts\<close>\<close>

text \<open>
  The fields of \<open>Expense\<close> that the calculator never reads (description, category,
  paidByName, createdBy, the two dates and the optional imageUrl) are left out.
  Several interfaces share field names, so fields are written with the record's
  name in front.
\<close>

record ExpenseSplit =
  userId :: string
  displayName :: string
  amount :: rat
  settled :: bool

record Expense =
  id :: string
  groupId :: string
  amount :: rat
  paidBy :: string
  splits :: "ExpenseSplit list"

record GroupBalance =
  groupId :: string
  userId :: string
  displayName :: string
  totalPaid :: rat
  totalOwed :: rat
  balance :: rat

record Balance =
  userId :: string
  displayName :: string
  amount :: rat

subsection \<open>calculateGroupBalances\<close>

text \<open>
  \<open>memberNames.get(userId) || 'Unknown'\<close>: the placeholder is taken when the key is
  missing and also when the stored name is the empty string, which is falsy.
\<close>

definition nameOrUnknown :: "(string \<rightharpoonup> string) \<Rightarrow> string \<Rightarrow> string" where
  "nameOrUnknown memberNames u =
     (case memberNames u of
        None \<Rightarrow> ''Unknown''
      | Some n \<Rightarrow> if n = [] then ''Unknown'' else n)"


text \<open>
  The local \<open>balances\<close> is a JavaScript \<open>Map\<close>, which iterates in insertion order and
  whose \<open>set\<close> on a key already present replaces the value where it stands. It is
  an association list, with \<^const>\<open>AList.update\<close> for \<open>set\<close> and \<^const>\<open>map_of\<close> for
  \<open>get\<close>. The objects stored in it are mutated through the reference \<open>get\<close>
  returns; in the model the entry is replaced by the updated record.
\<close>

type_synonym balanceMap = "(string \<times> GroupBalance) list"


definition addPaid :: "Expense \<Rightarrow> balanceMap \<Rightarrow> balanceMap" where
  "addPaid expense balances =
     (case map_of balances (paidBy expense) of
        Some payer \<Rightarrow>
          AList.update (paidBy expense)
            (payer\<lparr>totalPaid := totalPaid payer + Expense.amount expense\<rparr>) balances
      | None \<Rightarrow> balances)"

definition addOwed :: "ExpenseSplit \<Rightarrow> balanceMap \<Rightarrow> balanceMap" where
  "addOwed split balances =
     (if \<not> settled split then
        (case map_of balances (ExpenseSplit.userId split) of
           Some member \<Rightarrow>
             AList.update (ExpenseSplit.userId split)
               (member\<lparr>totalOwed := totalOwed member + ExpenseSplit.amount split\<rparr>) balances
         | None \<Rightarrow> balances)
      else balances)"

definition addExpense :: "Expense \<Rightarrow> balanceMap \<Rightarrow> balanceMap" where
  "addExpense expense balances = fold addOwed (splits expense) (addPaid expense balances)"



subsection \<open>simplifyDebts\<close>

text \<open>
  \<open>filter\<close> and \<open>sort\<close> build new arrays that hold the very objects of
  \<open>groupBalances\<close>, so the assignment \<open>creditor.balance -= amount\<close> writes into
  the caller's records. The debtors are fresh objects (\<open>{ ...b, balance: -b.balance }\<close>)
  and stay local. The input array is taken to hold pairwise different objects;
  a creditor is referred to by its position in that array, and the method returns
  the transactions together with the input array as the call leaves it.

  \<open>Array.prototype.sort\<close> is stable, and \<open>(a, b) => b.balance - a.balance\<close> orders
  by descending balance: this is \<^const>\<open>sort_key\<close> on the negated balance.
\<close>

text \<open>
  The two pools. The creditors are kept as positions in \<open>groupBalances\<close>, the
  debtors as the negated copies.
\<close>

definition creditorRefs :: "GroupBalance list \<Rightarrow> nat list" where
  "creditorRefs groupBalances =
     sort_key (\<lambda>k. - balance (groupBalances ! k))
       (filter (\<lambda>k. balance (groupBalances ! k) > 0.01) [0..<length groupBalances])"

definition debtorCopies :: "GroupBalance list \<Rightarrow> GroupBalance list" where
  "debtorCopies groupBalances =
     sort_key (\<lambda>b. - balance b)
       (map (\<lambda>b. b\<lparr>balance := - balance b\<rparr>)
          (filter (\<lambda>b. balance b < - 0.01) groupBalances))"

text \<open>
  The loop: its variables, its condition, one iteration, and the loop itself.
  Each iteration brings the creditor or the debtor to 0, so one of the two
  pointers advances; this is the termination argument.
\<close>

record loopState =
  creditors :: "GroupBalance list"
  debtors :: "GroupBalance list"
  i :: nat
  j :: nat
  transactions :: "Balance list"

definition running :: "loopState \<Rightarrow> bool" where
  "running s \<longleftrightarrow> i s < length (creditors s) \<and> j s < length (debtors s)"

definition owes :: "string \<Rightarrow> string \<Rightarrow> string" where
  "owes debtorName creditorName = debtorName @ '' owes '' @ creditorName"

definition step :: "loopState \<Rightarrow> loopState" where
  "step s =
     (let creditor = creditors s ! i s;
          debtor = debtors s ! j s;
          amount = min (balance creditor) (balance debtor);
          t = \<lparr> Balance.userId = GroupBalance.userId debtor,
                displayName = owes (GroupBalance.displayName debtor) (GroupBalance.displayName creditor),
                amount = amount \<rparr>;
          creditor' = creditor\<lparr>balance := balance creditor - amount\<rparr>;
          debtor' = debtor\<lparr>balance := balance debtor - amount\<rparr>
      in \<lparr> creditors = (creditors s)[i s := creditor'],
           debtors = (debtors s)[j s := debtor'],
           i = (if balance creditor' < 0.01 then i s + 1 else i s),
           j = (if balance debtor' < 0.01 then j s + 1 else j s),
           transactions = transactions s @ [t] \<rparr>)"

function settle :: "loopState \<Rightarrow> loopState" where
  "settle s = (if running s then settle (step s) else s)"
  by pat_completeness auto
termination
proof (relation "measure (\<lambda>s. (length (creditors s) - i s) + (length (debtors s) - j s))")
  show "wf (measure (\<lambda>s. (length (creditors s) - i s) + (length (debtors s) - j s)))"
    by simp
next
  fix s :: loopState
  assume r: "running s"
  let ?c = "balance (creditors s ! i s)" and ?d = "balance (debtors s ! j s)"
  have adv: "?c - min ?c ?d < 0.01 \<or> ?d - min ?c ?d < 0.01"
    by (cases "?c \<le> ?d") (simp_all add: min_def)
  from r adv show "(step s, s) \<in> measure (\<lambda>s. (length (creditors s) - i s) + (length (debtors s) - j s))"
    by (auto simp: step_def running_def Let_def)
qed

declare settle.simps [simp del]


text \<open>
  The whole method: the loop run from the initial state, and the creditor
  objects as the loop leaves them, put where they stand in the input array.
\<close>

definition writeBack :: "nat list \<Rightarrow> GroupBalance list \<Rightarrow> GroupBalance list \<Rightarrow> GroupBalance list" where
  "writeBack refs objs groupBalances =
     fold (\<lambda>(k, b) gbs. gbs[k := b]) (zip refs objs) groupBalances"

definition initialState :: "GroupBalance list \<Rightarrow> loopState" where
  "initialState groupBalances =
     \<lparr> creditors = map (\<lambda>k. groupBalances ! k) (creditorRefs groupBalances),
       debtors = debtorCopies groupBalances,
       i = 0, j = 0, transactions = [] \<rparr>"

definition simplifyDebts :: "GroupBalance list \<Rightarrow> Balance list \<times> GroupBalance list" where
  "simplifyDebts groupBalances =
     (let final = settle (initialState groupBalances)
      in (transactions final,
          writeBack (creditorRefs groupBalances) (creditors final) groupBalances))"








subsection \<open>splitEqually and validateCustomSplits\<close>

text \<open>
  \<open>Number(x.toFixed(2))\<close>: \<open>toFixed\<close> treats the sign apart and picks the integer
  \<open>n\<close> with \<open>n / 100\<close> nearest to \<open>|x|\<close>, the larger one on a tie.
\<close>

definition toFixed2 :: "rat \<Rightarrow> rat" where
  "toFixed2 x =
     (if x < 0 then - (of_int \<lfloor>(- x) * 100 + 1 / 2\<rfloor> / 100)
      else of_int \<lfloor>x * 100 + 1 / 2\<rfloor> / 100)"

text \<open>
  The parameters \<open>amount\<close> and \<open>splits\<close> are written \<open>amt\<close> and \<open>sps\<close>, the
  names being taken by record fields. For an empty \<open>memberIds\<close> the JavaScript
  quotient is \<open>Infinity\<close> or \<open>NaN\<close>, where HOL's is 0; the quotient is only read
  inside the callback of \<open>map\<close>, which an empty array never calls.
\<close>

definition splitEqually ::
  "rat \<Rightarrow> string list \<Rightarrow> (string \<rightharpoonup> string) \<Rightarrow> ExpenseSplit list" where
  "splitEqually amt memberIds memberNames =
     (let splitAmount = amt / of_nat (length memberIds)
      in map (\<lambda>u. \<lparr> ExpenseSplit.userId = u,
                     displayName = nameOrUnknown memberNames u,
                     amount = toFixed2 splitAmount,
                     settled = False \<rparr>) memberIds)"


subsection \<open>Example inputs\<close>

text \<open>
  Concrete inputs on which the theorems below are exercised. \<open>balancesA\<close> and
  \<open>balancesB\<close> are the balances of a group of two (Alice paid 100, split 50/50)
  and of a group of three (Ann paid 90, split 30 each); \<open>expensesB\<close> is the
  expense behind the latter. \<open>mixedExpenses\<close> has a settled split, a split of a
  non-member and an expense paid by a non-member. \<open>outsidePayer\<close> is paid by
  someone outside the roster, \<open>underSplit\<close> has splits that do not add up to its
  amount. In \<open>shortCredit\<close> the only creditor covers a fifth of the debt; in
  \<open>sameUser\<close> two records carry the same user id.
\<close>

definition balancesA :: "GroupBalance list" where
  "balancesA =
     [\<lparr>GroupBalance.groupId = ''g'', userId = ''A'', displayName = ''Alice'',
        totalPaid = 100, totalOwed = 50, balance = 50\<rparr>,
      \<lparr>GroupBalance.groupId = ''g'', userId = ''B'', displayName = ''Bob'',
        totalPaid = 0, totalOwed = 50, balance = - 50\<rparr>]"








section \<open>Properties of splitEqually and validateCustomSplits\<close>

subsection \<open>Rounding to two decimals\<close>









subsection \<open>Claims on the split helpers\<close>


text \<open>
  C8, as the code has it. \<open>splitEqually\<close> with an empty \<open>memberIds\<close> raises nothing:
  for every amount and every names map it returns the empty list of splits.
  Rejecting an empty member list is left to the caller.
\<close>

theorem splitEqually_empty: "splitEqually amt [] memberNames = []"
  by (simp add: splitEqually_def)

text \<open>
  C8 as stated asks for an error on the empty list. The call
  \<open>splitEqually(100, [], new Map())\<close> returns normally, with \<open>[]\<close>.
\<close>

theorem splitEqually_empty_returns: "splitEqually 100 [] Map.empty = []"
  by (simp add: splitEqually_def)



section \<open>Properties of calculateGroupBalances\<close>

subsection \<open>The insertion-ordered map\<close>


lemma update_keys_present:
  "map_of al k = Some b \<Longrightarrow> map fst (AList.update k v al) = map fst al"
  by (simp add: update_keys map_of_eq_None_iff [symmetric] del: map_of_eq_None_iff)





text \<open>What the expense loop leaves alone.\<close>

lemma update_map_same:
  "map_of al k = Some b \<Longrightarrow> g (k, b') = g (k, b) \<Longrightarrow> map g (AList.update k b' al) = map g al"
proof (induction al)
  case Nil
  then show ?case by simp
next
  case (Cons p al)
  show ?case
  proof (cases "fst p = k")
    case True
    with Cons.prems have "p = (k, b)" by (cases p) simp
    with Cons.prems show ?thesis by simp
  next
    case False
    with Cons show ?thesis by simp
  qed
qed

lemma addPaid_same:
  assumes "\<And>k b x. g (k, b\<lparr>totalPaid := x\<rparr>) = g (k, b)"
  shows "map g (addPaid e al) = map g al"
  using assms by (auto simp: addPaid_def update_map_same split: option.splits)

lemma addOwed_same:
  assumes "\<And>k b x. g (k, b\<lparr>totalOwed := x\<rparr>) = g (k, b)"
  shows "map g (addOwed sp al) = map g al"
  using assms by (auto simp: addOwed_def update_map_same split: option.splits)

lemma fold_addOwed_same:
  assumes "\<And>k b x. g (k, b\<lparr>totalOwed := x\<rparr>) = g (k, b)"
  shows "map g (fold addOwed sps al) = map g al"
  using assms by (induction sps arbitrary: al) (simp_all add: addOwed_same)

lemma addExpense_same:
  assumes "\<And>k b x. g (k, b\<lparr>totalPaid := x\<rparr>) = g (k, b)"
      and "\<And>k b x. g (k, b\<lparr>totalOwed := x\<rparr>) = g (k, b)"
  shows "map g (addExpense e al) = map g al"
  using assms by (simp add: addExpense_def fold_addOwed_same addPaid_same)

lemma fold_addExpense_same:
  assumes "\<And>k b x. g (k, b\<lparr>totalPaid := x\<rparr>) = g (k, b)"
      and "\<And>k b x. g (k, b\<lparr>totalOwed := x\<rparr>) = g (k, b)"
  shows "map g (fold addExpense es al) = map g al"
  using assms by (induction es arbitrary: al) (simp_all add: addExpense_same)

lemma fold_addExpense_keys: "map fst (fold addExpense es al) = map fst al"
  by (rule fold_addExpense_same) simp_all

lemma fold_addOwed_keys: "map fst (fold addOwed sps al) = map fst al"
  by (rule fold_addOwed_same) simp

























subsection \<open>Claims on calculateGroupBalances\<close>









section \<open>Properties of simplifyDebts\<close>

subsection \<open>The loop\<close>




lemma step_creditors:
  "creditors (step s) = (creditors s)[i s := (creditors s ! i s)
     \<lparr>balance := balance (creditors s ! i s)
        - min (balance (creditors s ! i s)) (balance (debtors s ! j s))\<rparr>]"
  by (simp add: step_def Let_def)

lemma step_debtors:
  "debtors (step s) = (debtors s)[j s := (debtors s ! j s)
     \<lparr>balance := balance (debtors s ! j s)
        - min (balance (creditors s ! i s)) (balance (debtors s ! j s))\<rparr>]"
  by (simp add: step_def Let_def)




lemma step_lengths [simp]:
  "length (creditors (step s)) = length (creditors s)"
  "length (debtors (step s)) = length (debtors s)"
  by (simp_all add: step_creditors step_debtors)









text \<open>The state the loop starts from.\<close>

lemma initialState_simps [simp]:
  "creditors (initialState gb) = map (\<lambda>k. gb ! k) (creditorRefs gb)"
  "debtors (initialState gb) = debtorCopies gb"
  "i (initialState gb) = 0"
  "j (initialState gb) = 0"
  "transactions (initialState gb) = []"
  by (simp_all add: initialState_def)







subsection \<open>What each debtor pays\<close>

























subsection \<open>Claims on simplifyDebts\<close>






text \<open>
  C3 at a concrete input. With Alice at +50 and Bob at -50, \<open>simplifyDebts\<close>
  returns the transaction "Bob owes Alice" of 50 and leaves Alice's record in
  the caller's array with balance 0, so the array is not what it was; a second
  call on the same array returns no transaction.
\<close>

theorem simplifyDebts_writes_input:
  "simplifyDebts balancesA
   = ([\<lparr>Balance.userId = ''B'', displayName = ''Bob owes Alice'', amount = 50\<rparr>],
      [\<lparr>GroupBalance.groupId = ''g'', userId = ''A'', displayName = ''Alice'',
         totalPaid = 100, totalOwed = 50, balance = 0\<rparr>,
       \<lparr>GroupBalance.groupId = ''g'', userId = ''B'', displayName = ''Bob'',
         totalPaid = 0, totalOwed = 50, balance = - 50\<rparr>])
   \<and> snd (simplifyDebts balancesA) \<noteq> balancesA
   \<and> fst (simplifyDebts (snd (simplifyDebts balancesA))) = []"
  by code_simp




end
